theory Spec2Isabelle
  imports Main "HOL-Library.Multiset"
begin

section \<open>Values, exceptions and callables\<close>

text \<open>
  The event data handed to a handler is a Python sequence of values. Only the shape of a
  value matters to \<^verbatim>\<open>events.py\<close>: whether it can be unpacked with \<^verbatim>\<open>*data\<close>.
\<close>

datatype pyval = PNone | PInt int | PSeq "pyval list"

text \<open>
  Exceptions. \<open>StopIteration\<close> and \<open>RuntimeError\<close> are apart because Python turns a
  \<open>StopIteration\<close> that leaves the body of a coroutine into a \<open>RuntimeError\<close>. The
  exceptions of an exception group are a multiset: the children of a task group run
  concurrently and their failures come in no fixed order.
\<close>

datatype exc =
    ValueError string
  | TypeError
  | StopIteration
  | RuntimeError
  | UserError nat
  | ExceptionGroup "exc multiset"

datatype outcome = Returns | Raises exc

text \<open>
  What a run does, as far as the model observes it. \<open>Called i args\<close>: the function object
  with identity \<open>i\<close> was called on the positional arguments \<open>args\<close>. \<open>Concurrent ts\<close>:
  the child tasks of a task group ran concurrently, \<open>ts\<close> being what each of them did;
  it is a multiset, so nothing is said about the order of the children or about how
  their activities interleave. A list of activities is in program order.
\<close>

datatype activity = Called nat "pyval list" | Concurrent "activity list multiset"

type_synonym trace = "activity list"

text \<open>
  What the call of a user callable does: it raises (a function that fails, or arguments
  that do not bind to the parameters, which is a \<open>TypeError\<close> at the call also for an
  \<^verbatim>\<open>async def\<close>), it returns a value that cannot be awaited, or it returns a coroutine
  object whose body has the given outcome once it is awaited.
\<close>

datatype user_result = URaises exc | UReturns | UCoroutine outcome

text \<open>
  Function objects. Each carries its identity (Python's \<^verbatim>\<open>id\<close>), since function objects
  compare by identity and the source returns some of them unchanged.
  \<^item> \<open>UserFunc i c u\<close> is a callable supplied by the user: \<open>c\<close> is the answer of
    \<^verbatim>\<open>asyncio.iscoroutinefunction\<close> for it, \<open>u\<close> what its call does on an argument list.
    The two are independent: an object with an \<^verbatim>\<open>async def __call__\<close> returns coroutines
    and is no coroutine function.
  \<^item> \<open>WrapperAwaitArgs\<close> is the closure of lines 146-147 (\<^verbatim>\<open>await function(*data)\<close>),
    \<open>WrapperCallArgs\<close> the one of lines 151-152 (\<^verbatim>\<open>function(*data)\<close>),
    \<open>WrapperCallData\<close> the one of lines 157-158 (\<^verbatim>\<open>function(data)\<close>).
  \<^item> \<open>AwaitAll\<close> is the closure \<^verbatim>\<open>await_all_event_handlers\<close> of lines 213-216 over
    \<^verbatim>\<open>functions\<close>.
\<close>

datatype func =
    UserFunc nat bool "pyval list \<Rightarrow> user_result"
  | WrapperAwaitArgs nat func
  | WrapperCallArgs nat func
  | WrapperCallData nat func
  | AwaitAll nat "func list"

fun fid :: "func \<Rightarrow> nat" where
  "fid (UserFunc i c u) = i"
| "fid (WrapperAwaitArgs i function) = i"
| "fid (WrapperCallArgs i function) = i"
| "fid (WrapperCallData i function) = i"
| "fid (AwaitAll i functions) = i"

text \<open>\<^verbatim>\<open>asyncio.iscoroutinefunction\<close>: every closure of the source is an \<^verbatim>\<open>async def\<close>.\<close>

fun iscoroutinefunction :: "func \<Rightarrow> bool" where
  "iscoroutinefunction (UserFunc i c u) = c"
| "iscoroutinefunction (WrapperAwaitArgs i function) = True"
| "iscoroutinefunction (WrapperCallArgs i function) = True"
| "iscoroutinefunction (WrapperCallData i function) = True"
| "iscoroutinefunction (AwaitAll i functions) = True"

section \<open>Calling and awaiting\<close>

text \<open>
  What a call expression evaluates to: \<^verbatim>\<open>None\<close>, or a coroutine object. A coroutine object
  is represented by what awaiting it does: the activities of its body and the outcome.
  Nothing of it happens unless it is awaited or run as a task.
\<close>

datatype retval = NoneValue | Coroutine trace outcome

text \<open>The result of evaluating a call: its activities, and an exception or a value.\<close>

type_synonym called = "trace \<times> (exc + retval)"

text \<open>The result of running a statement to its end.\<close>

type_synonym run = "trace \<times> outcome"

text \<open>\<^verbatim>\<open>await e\<close>, for the evaluated call \<open>e\<close>: awaiting \<^verbatim>\<open>None\<close> is a TypeError.\<close>

fun await_result :: "called \<Rightarrow> run" where
  "await_result (t, Inl e) = (t, Raises e)"
| "await_result (t, Inr NoneValue) = (t, Raises TypeError)"
| "await_result (t, Inr (Coroutine t' out)) = (t @ t', out)"

text \<open>The expression statement \<^verbatim>\<open>e\<close>: the value is dropped, a coroutine never runs.\<close>

fun discard_result :: "called \<Rightarrow> run" where
  "discard_result (t, Inl e) = (t, Raises e)"
| "discard_result (t, Inr v) = (t, Returns)"

text \<open>\<^verbatim>\<open>*data\<close>: the elements of a sequence; other values of the model are not iterable.\<close>

fun unpack :: "pyval \<Rightarrow> pyval list option" where
  "unpack (PSeq xs) = Some xs"
| "unpack PNone = None"
| "unpack (PInt n) = None"

text \<open>
  An outcome leaving the body of a coroutine: Python replaces \<open>StopIteration\<close> by
  \<open>RuntimeError\<close> there.
\<close>

fun leave_coroutine :: "outcome \<Rightarrow> outcome" where
  "leave_coroutine (Raises StopIteration) = Raises RuntimeError"
| "leave_coroutine out = out"

text \<open>
  The coroutine object made by calling an \<^verbatim>\<open>async def\<close> closure, for the run of the
  closure's body.
\<close>

definition coroutine :: "run \<Rightarrow> exc + retval" where
  "coroutine body = Inr (Coroutine (fst body) (leave_coroutine (snd body)))"

text \<open>
  Modelled from the spec: the task group of \<^verbatim>\<open>anyio.create_task_group\<close>, which is not
  part of the source. The spec says that the merged function "concurrently starts all
  underlying functions passing the same data to each, and completes only once every one
  of them completes", that there is "no ordering guarantee between the N underlying
  invocations' side effects", and that "an error in any underlying function must be part
  of the combined outcome". A group is the multiset of the child tasks started in it, a
  child being the run of a coroutine. \<open>start_soon\<close> takes the evaluated call
  \<^verbatim>\<open>func(data)\<close>, which it makes at once: an exception of the call is raised from
  \<open>start_soon\<close>, a value that is no coroutine is a \<open>TypeError\<close>, a coroutine becomes a
  child. Leaving the \<^verbatim>\<open>async with\<close> block runs the children concurrently, each to its
  end, and fails with the group of the exception of the block, if any, and of the
  children's exceptions. Cancelling children after a failure is not modelled.
\<close>

type_synonym task_group = "run multiset"

definition create_task_group :: task_group where
  "create_task_group = {#}"

fun start_soon :: "task_group \<Rightarrow> called \<Rightarrow> trace \<times> (exc + task_group)" where
  "start_soon tg (t, Inl e) = (t, Inl e)"
| "start_soon tg (t, Inr NoneValue) = (t, Inl TypeError)"
| "start_soon tg (t, Inr (Coroutine t' out)) = (t, Inr (add_mset (t', out) tg))"

fun raised :: "run \<Rightarrow> exc multiset" where
  "raised (t, Returns) = {#}"
| "raised (t, Raises e) = {#e#}"

definition task_group_exit :: "exc option \<Rightarrow> task_group \<Rightarrow> run" where
  "task_group_exit e tg =
     ([Concurrent (image_mset fst tg)],
      let es = (case e of None \<Rightarrow> {#} | Some x \<Rightarrow> {#x#}) + sum_mset (image_mset raised tg)
      in if es = {#} then Returns else Raises (ExceptionGroup es))"

text \<open>
  \<open>call f args\<close> is the call expression \<^verbatim>\<open>f(*args)\<close>. The closures of the source are
  \<^verbatim>\<open>async def\<close> functions of exactly one parameter, \<^verbatim>\<open>data\<close>: their call runs nothing of
  the body and returns a coroutine object, and any other number of arguments is a
  \<open>TypeError\<close> at the call.

  \<open>start_all\<close> is the loop of lines 215-216: it ends at the first \<open>start_soon\<close> that
  raises, with that exception and the children started before.
\<close>

fun call :: "func \<Rightarrow> pyval list \<Rightarrow> called"
  and start_all :: "func list \<Rightarrow> pyval \<Rightarrow> task_group \<Rightarrow> trace \<times> exc option \<times> task_group"
where
  "call (UserFunc i c u) args =
     ([Called i args],
      case u args of
        URaises e \<Rightarrow> Inl e
      | UReturns \<Rightarrow> Inr NoneValue
      | UCoroutine out \<Rightarrow> Inr (Coroutine [] (leave_coroutine out)))"
| "call (WrapperAwaitArgs i function) args =
     ([Called i args],
      case args of
        [data] \<Rightarrow>
          coroutine
            (case unpack data of
               None \<Rightarrow> ([], Raises TypeError)
             | Some xs \<Rightarrow> await_result (call function xs))
      | _ \<Rightarrow> Inl TypeError)"
| "call (WrapperCallArgs i function) args =
     ([Called i args],
      case args of
        [data] \<Rightarrow>
          coroutine
            (case unpack data of
               None \<Rightarrow> ([], Raises TypeError)
             | Some xs \<Rightarrow> discard_result (call function xs))
      | _ \<Rightarrow> Inl TypeError)"
| "call (WrapperCallData i function) args =
     ([Called i args],
      case args of
        [data] \<Rightarrow> coroutine (discard_result (call function [data]))
      | _ \<Rightarrow> Inl TypeError)"
| "call (AwaitAll i functions) args =
     ([Called i args],
      case args of
        [data] \<Rightarrow>
          coroutine
            (case start_all functions data create_task_group of
               (t, e, tg) \<Rightarrow>
                 (case task_group_exit e tg of (t', out) \<Rightarrow> (t @ t', out)))
      | _ \<Rightarrow> Inl TypeError)"
| "start_all [] data tg = ([], None, tg)"
| "start_all (func # rest) data tg =
     (case start_soon tg (call func [data]) of
        (t, Inl e) \<Rightarrow> (t, Some e, tg)
      | (t, Inr tg') \<Rightarrow>
          (case start_all rest data tg' of (t', r) \<Rightarrow> (t @ t', r)))"

text \<open>
  The dispatch of the external renderer: \<^verbatim>\<open>await handler.function(data)\<close> on an event
  data sequence.
\<close>

definition dispatch :: "func \<Rightarrow> pyval list \<Rightarrow> run" where
  "dispatch f d = await_result (call f [PSeq d])"

text \<open>
  The spec's HandlerFunction is "an asynchronous callable accepting one argument":
  called on the one argument, it returns a coroutine object.
\<close>

definition returns_coroutine :: "func \<Rightarrow> pyval \<Rightarrow> bool" where
  "returns_coroutine f data =
     (case snd (call f [data]) of
        Inr (Coroutine t out) \<Rightarrow> True
      | Inr NoneValue \<Rightarrow> False
      | Inl e \<Rightarrow> False)"

section \<open>The adapter\<close>

text \<open>
  \<^verbatim>\<open>to_event_handler_function\<close> (lines 131-162). Defining a closure makes a new function
  object: the functions of the model take the next unused object identity \<open>fresh\<close> and
  return the one after the objects they made.
\<close>

definition to_event_handler_function :: "func \<Rightarrow> bool \<Rightarrow> nat \<Rightarrow> func \<times> nat" where
  "to_event_handler_function function positional_args fresh =
     (if positional_args then
        (if iscoroutinefunction function then (WrapperAwaitArgs fresh function, Suc fresh)
         else (WrapperCallArgs fresh function, Suc fresh))
      else if \<not> iscoroutinefunction function then (WrapperCallData fresh function, Suc fresh)
      else (function, fresh))"

section \<open>The handler object\<close>

text \<open>
  \<^verbatim>\<open>EventHandler\<close> (lines 78-128): the four public slots, and the identity of the object.
  No line of the source assigns to a slot after \<^verbatim>\<open>__init__\<close>, so a handler object is a
  value here.
\<close>

record event_handler =
  ident :: nat
  "function" :: func
  prevent_default :: bool
  stop_propagation :: bool
  target :: "string option"

text \<open>\<^verbatim>\<open>EventHandler.__init__\<close> (lines 100-110).\<close>

definition EventHandler ::
    "func \<Rightarrow> bool \<Rightarrow> bool \<Rightarrow> string option \<Rightarrow> nat \<Rightarrow> event_handler \<times> nat" where
  "EventHandler function' stop_propagation' prevent_default' target' fresh =
     (case to_event_handler_function function' False fresh of
        (f, fresh1) \<Rightarrow>
          (\<lparr>ident = fresh1, function = f, prevent_default = prevent_default',
            stop_propagation = stop_propagation', target = target'\<rparr>,
           Suc fresh1))"

text \<open>
  The values of the slots, and Python's \<^verbatim>\<open>==\<close> on them: function objects compare by
  identity, booleans and targets (a string or \<^verbatim>\<open>None\<close>) by value.
\<close>

datatype attr = AFunc func | ABool bool | ATarget "string option"

fun attr_eq :: "attr \<Rightarrow> attr \<Rightarrow> bool" where
  "attr_eq (AFunc f) (AFunc g) = (fid f = fid g)"
| "attr_eq (ABool a) (ABool b) = (a = b)"
| "attr_eq (ATarget a) (ATarget b) = (a = b)"
| "attr_eq x y = False"

text \<open>\<^verbatim>\<open>getattr\<close> by name; \<open>None\<close> is an attribute the object does not have.\<close>

definition getattr :: "event_handler \<Rightarrow> string \<Rightarrow> attr option" where
  "getattr h name =
     (if name = ''function'' then Some (AFunc (function h))
      else if name = ''prevent_default'' then Some (ABool (prevent_default h))
      else if name = ''stop_propagation'' then Some (ABool (stop_propagation h))
      else if name = ''target'' then Some (ATarget (target h))
      else None)"

text \<open>\<^verbatim>\<open>attr.startswith("_")\<close>.\<close>

definition startswith :: "string \<Rightarrow> string \<Rightarrow> bool" where
  "startswith s p = (take (length p) s = p)"

text \<open>
  \<^verbatim>\<open>getattr(other, attr, undefined) == getattr(self, attr)\<close> (line 121): \<^verbatim>\<open>undefined\<close> is
  a new object, equal to no attribute value.
\<close>

fun getattr_eq :: "attr option \<Rightarrow> attr option \<Rightarrow> bool" where
  "getattr_eq (Some x) (Some y) = attr_eq x y"
| "getattr_eq x y = False"

text \<open>The loop of \<^verbatim>\<open>EventHandler.__eq__\<close> (lines 114-123) over the attribute names.\<close>

fun eq_loop :: "string list \<Rightarrow> event_handler \<Rightarrow> event_handler \<Rightarrow> bool" where
  "eq_loop [] self other = True"
| "eq_loop (a # rest) self other =
     (if \<not> startswith a ''_'' then
        (if \<not> getattr_eq (getattr other a) (getattr self a) then False
         else eq_loop rest self other)
      else eq_loop rest self other)"

definition EventHandler_eq :: "event_handler \<Rightarrow> event_handler \<Rightarrow> bool" where
  "EventHandler_eq self other =
     eq_loop [''function'', ''prevent_default'', ''stop_propagation'', ''target''] self other"

text \<open>
  The decorator \<^verbatim>\<open>event\<close> (lines 30-75) with its function given: the inner \<^verbatim>\<open>setup\<close>.
\<close>

definition setup_event :: "func \<Rightarrow> bool \<Rightarrow> bool \<Rightarrow> nat \<Rightarrow> event_handler \<times> nat" where
  "setup_event function' stop_propagation' prevent_default' fresh =
     (case to_event_handler_function function' True fresh of
        (f, fresh1) \<Rightarrow> EventHandler f stop_propagation' prevent_default' None fresh1)"

section \<open>Merging\<close>

text \<open>\<^verbatim>\<open>merge_event_handler_funcs\<close> (lines 203-218).\<close>

definition merge_event_handler_funcs :: "func list \<Rightarrow> nat \<Rightarrow> exc + func \<times> nat" where
  "merge_event_handler_funcs functions fresh =
     (if functions = [] then Inl (ValueError ''No event handler functions to merge'')
      else if length functions = 1 then Inr (functions ! 0, fresh)
      else Inr (AwaitAll fresh functions, Suc fresh))"

text \<open>The message of line 192.\<close>

definition mismatch_message :: string where
  "mismatch_message =
     ''Cannot merge handlers - 'stop_propagation', 'prevent_default' or 'target' mismatch.''"

text \<open>
  The conflicting fields, in the words of the claims: the fields in which some handler of
  the sequence differs from the first one.
\<close>

definition conflicting_fields :: "event_handler list \<Rightarrow> string list" where
  "conflicting_fields hs =
     (if list_ex (\<lambda>h. stop_propagation h \<noteq> stop_propagation (hs ! 0)) hs
      then [''stop_propagation''] else [])
     @ (if list_ex (\<lambda>h. prevent_default h \<noteq> prevent_default (hs ! 0)) hs
        then [''prevent_default''] else [])
     @ (if list_ex (\<lambda>h. target h \<noteq> target (hs ! 0)) hs then [''target''] else [])"

text \<open>
  The loop of lines 186-193: the first handler of the sequence whose flags or target
  differ from the given ones raises the ValueError.
\<close>

fun check_handlers :: "event_handler list \<Rightarrow> bool \<Rightarrow> bool \<Rightarrow> string option \<Rightarrow> exc option" where
  "check_handlers [] stop_propagation' prevent_default' target' = None"
| "check_handlers (handler # rest) stop_propagation' prevent_default' target' =
     (if stop_propagation handler \<noteq> stop_propagation'
         \<or> prevent_default handler \<noteq> prevent_default'
         \<or> target handler \<noteq> target'
      then Some (ValueError mismatch_message)
      else check_handlers rest stop_propagation' prevent_default' target')"

text \<open>\<^verbatim>\<open>merge_event_handlers\<close> (lines 165-200).\<close>

definition merge_event_handlers :: "event_handler list \<Rightarrow> nat \<Rightarrow> exc + event_handler \<times> nat" where
  "merge_event_handlers event_handlers fresh =
     (if event_handlers = [] then Inl (ValueError ''No event handlers to merge'')
      else if length event_handlers = 1 then Inr (event_handlers ! 0, fresh)
      else
        (let first_handler = event_handlers ! 0;
             stop_propagation' = stop_propagation first_handler;
             prevent_default' = prevent_default first_handler;
             target' = target first_handler
         in case check_handlers event_handlers stop_propagation' prevent_default' target' of
              Some e \<Rightarrow> Inl e
            | None \<Rightarrow>
                (case merge_event_handler_funcs (map function event_handlers) fresh of
                   Inl e \<Rightarrow> Inl e
                 | Inr (f, fresh1) \<Rightarrow>
                     Inr (EventHandler f stop_propagation' prevent_default' target' fresh1))))"

section \<open>Properties of the loops and of dispatch\<close>

lemma check_handlers_None:
  "check_handlers hs sp pd t = None \<longleftrightarrow>
     (\<forall>h\<in>set hs. stop_propagation h = sp \<and> prevent_default h = pd \<and> target h = t)"
  by (induction hs) auto

lemma check_handlers_Some:
  "check_handlers hs sp pd t = Some e \<Longrightarrow> e = ValueError mismatch_message"
  by (induction hs) (auto split: if_splits)

lemma leave_coroutine_Raises:
  "leave_coroutine (Raises e) = Raises (if e = StopIteration then RuntimeError else e)"
  by (cases e) simp_all

text \<open>A call is one activity: the call itself. The rest happens in the coroutine.\<close>

lemma call_trace: "fst (call f args) = [Called (fid f) args]"
  by (cases f) simp_all


text \<open>Every closure of the source, called on one argument, returns a coroutine.\<close>

lemma closure_returns_coroutine:
  "returns_coroutine (WrapperAwaitArgs i f) data"
  "returns_coroutine (WrapperCallArgs i f) data"
  "returns_coroutine (WrapperCallData i f) data"
  "returns_coroutine (AwaitAll i fs) data"
  by (simp_all add: returns_coroutine_def coroutine_def)

text \<open>
  So does the function of a handler that \<^verbatim>\<open>EventHandler.__init__\<close> made from a callable
  that is no coroutine function; a coroutine function is kept as it is, and returns a
  coroutine when it does itself.
\<close>

lemma EventHandler_returns_coroutine:
  "\<not> iscoroutinefunction f \<or> returns_coroutine f data \<Longrightarrow>
   returns_coroutine (function (fst (EventHandler f sp pd t fresh))) data"
  by (auto simp add: EventHandler_def to_event_handler_function_def
      closure_returns_coroutine)

lemma EventHandler_function_coroutine:
  "iscoroutinefunction (function (fst (EventHandler f sp pd t fresh)))"
  by (simp add: EventHandler_def to_event_handler_function_def)


text \<open>The loop ends at a call that does not return a coroutine: the rest is not called.\<close>

lemma start_all_stops:
  assumes "\<not> returns_coroutine f data"
  shows "fst (start_all (f # rest) data tg) = [Called (fid f) [data]]"
proof -
  obtain t r where c: "call f [data] = (t, r)" by (cases "call f [data]")
  with call_trace [of f "[data]"] have t: "t = [Called (fid f) [data]]" by simp
  from assms c have "r = Inr NoneValue \<or> (\<exists>e. r = Inl e)"
    by (auto simp add: returns_coroutine_def split: sum.splits retval.splits)
  with c t show ?thesis by auto
qed


text \<open>The handler that a merge of two or more agreeing handlers returns.\<close>

lemma merge_event_handlers_agreeing:
  assumes "2 \<le> length hs"
    and "\<forall>h\<in>set hs. stop_propagation h = stop_propagation (hs ! 0)
           \<and> prevent_default h = prevent_default (hs ! 0)
           \<and> target h = target (hs ! 0)"
  shows "merge_event_handlers hs fresh =
     Inr (\<lparr>ident = Suc fresh, function = AwaitAll fresh (map function hs),
           prevent_default = prevent_default (hs ! 0),
           stop_propagation = stop_propagation (hs ! 0), target = target (hs ! 0)\<rparr>,
          Suc (Suc fresh))"
proof -
  from assms(2) have "check_handlers hs (stop_propagation (hs ! 0))
      (prevent_default (hs ! 0)) (target (hs ! 0)) = None"
    unfolding check_handlers_None by blast
  with assms(1) show ?thesis
    by (auto simp add: merge_event_handlers_def merge_event_handler_funcs_def Let_def
        EventHandler_def to_event_handler_function_def)
qed

text \<open>A merge of two or more handlers succeeds only when they agree.\<close>

lemma merge_event_handlers_Inr:
  assumes "2 \<le> length hs" and "merge_event_handlers hs fresh = Inr (m, fresh')"
  shows "\<forall>h\<in>set hs. stop_propagation h = stop_propagation (hs ! 0)
           \<and> prevent_default h = prevent_default (hs ! 0)
           \<and> target h = target (hs ! 0)"
  using assms
  by (auto simp add: merge_event_handlers_def Let_def check_handlers_None [symmetric]
      split: option.splits if_splits)

text \<open>
  What the function made by the adapter does for any callable, a closure of the source
  included: it evaluates exactly one call of the callable, on the elements of the data
  with \<^verbatim>\<open>positional_args=True\<close> and on the data itself otherwise, and awaits the
  result exactly when the callable is a coroutine function.
\<close>

lemma to_event_handler_function_calls:
  "dispatch (fst (to_event_handler_function fn True fresh)) d =
     (case (if iscoroutinefunction fn then await_result (call fn d)
            else discard_result (call fn d)) of
        (t, out) \<Rightarrow> (Called fresh [PSeq d] # t, leave_coroutine out))"
  "dispatch (fst (to_event_handler_function fn False fresh)) d =
     (if iscoroutinefunction fn then await_result (call fn [PSeq d])
      else case discard_result (call fn [PSeq d]) of
             (t, out) \<Rightarrow> (Called fresh [PSeq d] # t, leave_coroutine out))"
  by (simp_all add: to_event_handler_function_def dispatch_def coroutine_def
      split: prod.splits)

section \<open>The claims\<close>

text \<open>
  C3: \<^verbatim>\<open>merge_event_handlers\<close> on the empty sequence of handlers and
  \<^verbatim>\<open>merge_event_handler_funcs\<close> on the empty sequence of functions raise a ValueError
  (the spec's EmptyInputError) and return nothing.
\<close>

theorem merge_empty_raises:
  "merge_event_handlers [] fresh = Inl (ValueError ''No event handlers to merge'')
   \<and> merge_event_handler_funcs [] fresh
       = Inl (ValueError ''No event handler functions to merge'')"
  by (simp add: merge_event_handlers_def merge_event_handler_funcs_def)

theorem merge_empty_raises_witness:
  "merge_event_handlers [] 7 = Inl (ValueError ''No event handlers to merge'')
   \<and> merge_event_handler_funcs [] 7
       = Inl (ValueError ''No event handler functions to merge'')"
  by (rule merge_empty_raises [of 7])

text \<open>
  C4: merging the one-element sequence \<open>[h]\<close> returns \<open>h\<close> itself, the same object
  with no new object made, and merging the one-element sequence \<open>[f]\<close> of functions
  returns \<open>f\<close> itself.
\<close>

theorem merge_singleton_identity:
  "merge_event_handlers [h] fresh = Inr (h, fresh)
   \<and> merge_event_handler_funcs [f] fresh = Inr (f, fresh)"
  by (simp add: merge_event_handlers_def merge_event_handler_funcs_def)

theorem merge_singleton_identity_witness:
  "merge_event_handlers
     [\<lparr>ident = 1, function = UserFunc 0 True (\<lambda>args. UCoroutine Returns),
       prevent_default = False, stop_propagation = True, target = Some ''a''\<rparr>] 2
     = Inr (\<lparr>ident = 1, function = UserFunc 0 True (\<lambda>args. UCoroutine Returns),
             prevent_default = False, stop_propagation = True, target = Some ''a''\<rparr>, 2)
   \<and> merge_event_handler_funcs [UserFunc 0 True (\<lambda>args. UCoroutine Returns)] 2
       = Inr (UserFunc 0 True (\<lambda>args. UCoroutine Returns), 2)"
  by (rule merge_singleton_identity)

text \<open>
  C6: for a callable \<open>f\<close> that is a coroutine function,
  \<^verbatim>\<open>to_event_handler_function(f, positional_args=False)\<close> returns \<open>f\<close> itself, and
  no function object is made.
\<close>

theorem to_event_handler_function_coroutine_unchanged:
  "iscoroutinefunction f \<Longrightarrow> to_event_handler_function f False fresh = (f, fresh)"
  by (simp add: to_event_handler_function_def)

theorem to_event_handler_function_coroutine_unchanged_witness:
  "iscoroutinefunction (UserFunc 0 True (\<lambda>args. UCoroutine (Raises (UserError 3))))
   \<and> to_event_handler_function
       (UserFunc 0 True (\<lambda>args. UCoroutine (Raises (UserError 3)))) False 1
       = (UserFunc 0 True (\<lambda>args. UCoroutine (Raises (UserError 3))), 1)"
proof -
  have c: "iscoroutinefunction (UserFunc 0 True (\<lambda>args. UCoroutine (Raises (UserError 3))))"
    by simp
  from c to_event_handler_function_coroutine_unchanged [OF c, of 1] show ?thesis
    by (rule conjI)
qed

text \<open>
  C7: two handlers are equal under \<^verbatim>\<open>__eq__\<close> exactly when their four public fields
  are: the functions (the same function object), \<^verbatim>\<open>stop_propagation\<close>,
  \<^verbatim>\<open>prevent_default\<close> and \<^verbatim>\<open>target\<close>. The identity of the handler objects plays no part:
  two handlers constructed separately with equal fields are equal, and a different
  target makes them unequal.
\<close>

theorem EventHandler_eq_iff:
  "EventHandler_eq a b \<longleftrightarrow>
     fid (function a) = fid (function b) \<and> stop_propagation a = stop_propagation b
     \<and> prevent_default a = prevent_default b \<and> target a = target b"
  by (auto simp add: EventHandler_eq_def getattr_def startswith_def)

theorem EventHandler_eq_iff_witness:
  "EventHandler_eq
     \<lparr>ident = 1, function = UserFunc 0 True (\<lambda>args. UCoroutine Returns),
      prevent_default = False, stop_propagation = True, target = Some ''a''\<rparr>
     \<lparr>ident = 2, function = UserFunc 0 True (\<lambda>args. UCoroutine Returns),
      prevent_default = False, stop_propagation = True, target = Some ''a''\<rparr>
   \<and> \<not> EventHandler_eq
     \<lparr>ident = 1, function = UserFunc 0 True (\<lambda>args. UCoroutine Returns),
      prevent_default = False, stop_propagation = True, target = Some ''a''\<rparr>
     \<lparr>ident = 2, function = UserFunc 0 True (\<lambda>args. UCoroutine Returns),
      prevent_default = False, stop_propagation = True, target = Some ''b''\<rparr>"
  unfolding EventHandler_eq_iff by simp

text \<open>
  C2, as the code has it: for a sequence of two or more handlers in which some handler
  differs from the first in \<^verbatim>\<open>stop_propagation\<close>, \<^verbatim>\<open>prevent_default\<close> or \<^verbatim>\<open>target\<close>, the
  merge raises a ValueError (the spec's ConflictingFlagsError) and returns no handler.
  The error is the same whichever fields conflict: its message is the fixed text of
  line 192, which names all three fields.
\<close>

theorem merge_event_handlers_conflict:
  assumes "2 \<le> length hs"
    and "\<exists>h\<in>set hs. stop_propagation h \<noteq> stop_propagation (hs ! 0)
           \<or> prevent_default h \<noteq> prevent_default (hs ! 0)
           \<or> target h \<noteq> target (hs ! 0)"
  shows "merge_event_handlers hs fresh = Inl (ValueError mismatch_message)"
proof -
  from assms(2) have "check_handlers hs (stop_propagation (hs ! 0))
      (prevent_default (hs ! 0)) (target (hs ! 0)) \<noteq> None"
    unfolding check_handlers_None by blast
  then obtain e where e: "check_handlers hs (stop_propagation (hs ! 0))
      (prevent_default (hs ! 0)) (target (hs ! 0)) = Some e" by blast
  then have "e = ValueError mismatch_message" by (rule check_handlers_Some)
  with e assms(1) show ?thesis
    by (auto simp add: merge_event_handlers_def Let_def)
qed

theorem merge_event_handlers_conflict_witness:
  "merge_event_handlers
     [\<lparr>ident = 2, function = UserFunc 0 True (\<lambda>args. UCoroutine Returns),
       prevent_default = False, stop_propagation = True, target = None\<rparr>,
      \<lparr>ident = 3, function = UserFunc 1 True (\<lambda>args. UCoroutine Returns),
       prevent_default = False, stop_propagation = False, target = None\<rparr>] 4
   = Inl (ValueError
       ''Cannot merge handlers - 'stop_propagation', 'prevent_default' or 'target' mismatch.'')"
  unfolding mismatch_message_def [symmetric]
  by (rule merge_event_handlers_conflict) simp_all

text \<open>
  C2 as it is stated fails: the error does not identify the conflicting fields. Two
  handlers that conflict in \<^verbatim>\<open>target\<close> only and two that conflict in
  \<^verbatim>\<open>stop_propagation\<close> only raise the same error.
\<close>

theorem merge_event_handlers_conflict_counterexample:
  "conflicting_fields
     [\<lparr>ident = 2, function = UserFunc 0 True (\<lambda>args. UCoroutine Returns),
       prevent_default = False, stop_propagation = True, target = None\<rparr>,
      \<lparr>ident = 3, function = UserFunc 1 True (\<lambda>args. UCoroutine Returns),
       prevent_default = False, stop_propagation = True, target = Some ''a''\<rparr>]
     = [''target'']
   \<and> conflicting_fields
     [\<lparr>ident = 2, function = UserFunc 0 True (\<lambda>args. UCoroutine Returns),
       prevent_default = False, stop_propagation = True, target = None\<rparr>,
      \<lparr>ident = 3, function = UserFunc 1 True (\<lambda>args. UCoroutine Returns),
       prevent_default = False, stop_propagation = False, target = None\<rparr>]
     = [''stop_propagation'']
   \<and> merge_event_handlers
     [\<lparr>ident = 2, function = UserFunc 0 True (\<lambda>args. UCoroutine Returns),
       prevent_default = False, stop_propagation = True, target = None\<rparr>,
      \<lparr>ident = 3, function = UserFunc 1 True (\<lambda>args. UCoroutine Returns),
       prevent_default = False, stop_propagation = True, target = Some ''a''\<rparr>] 4
     = merge_event_handlers
     [\<lparr>ident = 2, function = UserFunc 0 True (\<lambda>args. UCoroutine Returns),
       prevent_default = False, stop_propagation = True, target = None\<rparr>,
      \<lparr>ident = 3, function = UserFunc 1 True (\<lambda>args. UCoroutine Returns),
       prevent_default = False, stop_propagation = False, target = None\<rparr>] 4"
  by (simp add: conflicting_fields_def merge_event_handlers_def Let_def)



text \<open>
  C9: a successful merge of two or more handlers, all of them objects that exist already,
  returns a handler object made by the merge: its identity is new, so it is none of the
  inputs. Its function is the function that \<^verbatim>\<open>merge_event_handler_funcs\<close> returns for the
  functions of all the handlers, in their order, and its \<^verbatim>\<open>stop_propagation\<close>,
  \<^verbatim>\<open>prevent_default\<close> and \<^verbatim>\<open>target\<close> are those of the first handler. The inputs are
  values of the model, which the merge only reads.
\<close>

theorem merge_event_handlers_new_handler:
  assumes "2 \<le> length hs"
    and "merge_event_handlers hs fresh = Inr (m, fresh')"
    and "\<forall>h\<in>set hs. ident h < fresh"
  shows "m \<notin> set hs \<and> fresh \<le> ident m \<and> ident m < fresh'
     \<and> merge_event_handler_funcs (map function hs) fresh = Inr (function m, Suc fresh)
     \<and> function m = AwaitAll fresh (map function hs)
     \<and> stop_propagation m = stop_propagation (hs ! 0)
     \<and> prevent_default m = prevent_default (hs ! 0)
     \<and> target m = target (hs ! 0)"
proof -
  from merge_event_handlers_agreeing
    [OF assms(1) merge_event_handlers_Inr [OF assms(1,2)], of fresh] assms(2)
  have m: "m = \<lparr>ident = Suc fresh, function = AwaitAll fresh (map function hs),
           prevent_default = prevent_default (hs ! 0),
           stop_propagation = stop_propagation (hs ! 0), target = target (hs ! 0)\<rparr>"
    and f: "fresh' = Suc (Suc fresh)" by simp_all
  have "m \<notin> set hs" using assms(3) m by auto
  moreover have "merge_event_handler_funcs (map function hs) fresh
      = Inr (function m, Suc fresh)"
    using assms(1) m by (auto simp add: merge_event_handler_funcs_def)
  ultimately show ?thesis using m f by simp
qed

theorem merge_event_handlers_new_handler_witness:
  "merge_event_handlers
     [\<lparr>ident = 2, function = WrapperCallData 1 (UserFunc 0 False (\<lambda>args. UReturns)),
       prevent_default = False, stop_propagation = True, target = Some ''t''\<rparr>,
      \<lparr>ident = 4, function = UserFunc 3 True (\<lambda>args. UCoroutine Returns),
       prevent_default = False, stop_propagation = True, target = Some ''t''\<rparr>] 5
     = Inr (\<lparr>ident = 6,
       function = AwaitAll 5 [WrapperCallData 1 (UserFunc 0 False (\<lambda>args. UReturns)),
                              UserFunc 3 True (\<lambda>args. UCoroutine Returns)],
       prevent_default = False, stop_propagation = True, target = Some ''t''\<rparr>, 7)
   \<and> \<lparr>ident = 6,
       function = AwaitAll 5 [WrapperCallData 1 (UserFunc 0 False (\<lambda>args. UReturns)),
                              UserFunc 3 True (\<lambda>args. UCoroutine Returns)],
       prevent_default = False, stop_propagation = True, target = Some ''t''\<rparr>
     \<notin> set [\<lparr>ident = 2, function = WrapperCallData 1 (UserFunc 0 False (\<lambda>args. UReturns)),
       prevent_default = False, stop_propagation = True, target = Some ''t''\<rparr>,
             \<lparr>ident = 4, function = UserFunc 3 True (\<lambda>args. UCoroutine Returns),
       prevent_default = False, stop_propagation = True, target = Some ''t''\<rparr>]"
proof -
  have r: "merge_event_handlers
     [\<lparr>ident = 2, function = WrapperCallData 1 (UserFunc 0 False (\<lambda>args. UReturns)),
       prevent_default = False, stop_propagation = True, target = Some ''t''\<rparr>,
      \<lparr>ident = 4, function = UserFunc 3 True (\<lambda>args. UCoroutine Returns),
       prevent_default = False, stop_propagation = True, target = Some ''t''\<rparr>] 5
     = Inr (\<lparr>ident = 6,
       function = AwaitAll 5 [WrapperCallData 1 (UserFunc 0 False (\<lambda>args. UReturns)),
                              UserFunc 3 True (\<lambda>args. UCoroutine Returns)],
       prevent_default = False, stop_propagation = True, target = Some ''t''\<rparr>, 7)"
    by (simp add: merge_event_handlers_def merge_event_handler_funcs_def Let_def
        EventHandler_def to_event_handler_function_def)
  from merge_event_handlers_new_handler [OF _ r] r show ?thesis by simp
qed

text \<open>
  C5: for a user callable \<open>fn\<close> and an event data sequence \<open>d\<close>, dispatching the function
  made with \<^verbatim>\<open>positional_args=True\<close> calls the wrapper and then \<open>fn\<close> exactly once, on the
  elements of \<open>d\<close> as its positional arguments; dispatching the function made with
  \<^verbatim>\<open>positional_args=False\<close> calls \<open>fn\<close> exactly once on the single argument \<open>d\<close> (from
  the wrapper when \<open>fn\<close> is not a coroutine function, directly when it is). The outcome
  of the dispatch is that of the call of \<open>fn\<close>, awaited exactly when \<open>fn\<close> is a
  coroutine function, as it leaves the wrapper's coroutine.
\<close>

theorem to_event_handler_function_dispatch:
  "fst (dispatch (fst (to_event_handler_function (UserFunc i c u) True fresh)) d)
     = [Called fresh [PSeq d], Called i d]
   \<and> snd (dispatch (fst (to_event_handler_function (UserFunc i c u) True fresh)) d)
     = leave_coroutine
         (case u d of
            URaises e \<Rightarrow> Raises e
          | UReturns \<Rightarrow> if c then Raises TypeError else Returns
          | UCoroutine out \<Rightarrow> if c then leave_coroutine out else Returns)
   \<and> fst (dispatch (fst (to_event_handler_function (UserFunc i c u) False fresh)) d)
     = (if c then [] else [Called fresh [PSeq d]]) @ [Called i [PSeq d]]
   \<and> snd (dispatch (fst (to_event_handler_function (UserFunc i c u) False fresh)) d)
     = (case u [PSeq d] of
          URaises e \<Rightarrow> if c then Raises e else leave_coroutine (Raises e)
        | UReturns \<Rightarrow> if c then Raises TypeError else Returns
        | UCoroutine out \<Rightarrow> if c then leave_coroutine out else Returns)"
  by (auto simp add: to_event_handler_function_def dispatch_def coroutine_def
      split: user_result.splits)

theorem to_event_handler_function_dispatch_witness:
  "dispatch (fst (to_event_handler_function (UserFunc 0 False (\<lambda>args. UReturns)) True 1))
       [PInt 1, PInt 2]
     = ([Called 1 [PSeq [PInt 1, PInt 2]], Called 0 [PInt 1, PInt 2]], Returns)
   \<and> dispatch (fst (to_event_handler_function (UserFunc 0 False (\<lambda>args. UReturns)) False 1))
       [PInt 1, PInt 2]
     = ([Called 1 [PSeq [PInt 1, PInt 2]], Called 0 [PSeq [PInt 1, PInt 2]]], Returns)"
  using to_event_handler_function_dispatch
    [of 0 False "\<lambda>args. UReturns" 1 "[PInt 1, PInt 2]"]
  by (simp add: prod_eq_iff)

text \<open>
  C8, as the code has it. Let a user callable be wrapped by the adapter and the result
  be called on event data.
  \<^item> When the adapter made a wrapper (\<^verbatim>\<open>positional_args\<close> is true, or the callable is no
    coroutine function), the call raises nothing and returns a coroutine.
  \<^item> An exception that the callable raises at its call from inside a wrapper, or that the
    coroutine of a coroutine function raises when it is awaited, is the exception of the
    awaited result, except that \<open>StopIteration\<close> comes out as \<open>RuntimeError\<close>.
  \<^item> When the callable is a coroutine function and \<^verbatim>\<open>positional_args\<close> is false, it is
    returned as it is: an exception of its call (arguments that do not bind) is raised
    at the call of the result, synchronously.
  \<^item> A coroutine returned by a callable that is no coroutine function is dropped without
    being awaited: the dispatch returns and the coroutine's exception is never raised.
\<close>

theorem to_event_handler_function_exceptions:
  "((pa \<or> \<not> c) \<longrightarrow>
      (\<exists>t out. call (fst (to_event_handler_function (UserFunc i c u) pa fresh)) [PSeq d]
         = ([Called fresh [PSeq d]], Inr (Coroutine t out))))
   \<and> ((pa \<or> \<not> c) \<longrightarrow> u (if pa then d else [PSeq d]) = URaises e \<longrightarrow>
      snd (dispatch (fst (to_event_handler_function (UserFunc i c u) pa fresh)) d)
        = Raises (if e = StopIteration then RuntimeError else e))
   \<and> (c \<longrightarrow> u (if pa then d else [PSeq d]) = UCoroutine (Raises e) \<longrightarrow>
      snd (dispatch (fst (to_event_handler_function (UserFunc i c u) pa fresh)) d)
        = Raises (if e = StopIteration then RuntimeError else e))
   \<and> (\<not> pa \<and> c \<longrightarrow> u [PSeq d] = URaises e \<longrightarrow>
      call (fst (to_event_handler_function (UserFunc i c u) pa fresh)) [PSeq d]
        = ([Called i [PSeq d]], Inl e))
   \<and> (\<not> c \<longrightarrow> u (if pa then d else [PSeq d]) = UCoroutine out \<longrightarrow>
      snd (dispatch (fst (to_event_handler_function (UserFunc i c u) pa fresh)) d)
        = Returns)"
  by (auto simp add: to_event_handler_function_def dispatch_def coroutine_def
      leave_coroutine_Raises)

theorem to_event_handler_function_exceptions_witness:
  "(\<exists>t out. call
       (fst (to_event_handler_function (UserFunc 0 False (\<lambda>args. URaises (UserError 3))) True 1))
       [PSeq [PInt 1]] = ([Called 1 [PSeq [PInt 1]]], Inr (Coroutine t out)))
   \<and> snd (dispatch
       (fst (to_event_handler_function (UserFunc 0 False (\<lambda>args. URaises (UserError 3))) True 1))
       [PInt 1]) = Raises (UserError 3)
   \<and> snd (dispatch
       (fst (to_event_handler_function
          (UserFunc 0 True (\<lambda>args. UCoroutine (Raises (UserError 3)))) False 1))
       [PInt 1]) = Raises (UserError 3)
   \<and> call
       (fst (to_event_handler_function (UserFunc 0 True (\<lambda>args. URaises TypeError)) False 1))
       [PSeq [PInt 1]] = ([Called 0 [PSeq [PInt 1]]], Inl TypeError)
   \<and> snd (dispatch
       (fst (to_event_handler_function
          (UserFunc 0 False (\<lambda>args. UCoroutine (Raises (UserError 3)))) False 1))
       [PInt 1]) = Returns"
  using
    to_event_handler_function_exceptions
      [where pa = True and c = False and i = 0 and u = "\<lambda>args. URaises (UserError 3)"
         and fresh = 1 and d = "[PInt 1]" and e = "UserError 3"]
    to_event_handler_function_exceptions
      [where pa = False and c = True and i = 0
         and u = "\<lambda>args. UCoroutine (Raises (UserError 3))"
         and fresh = 1 and d = "[PInt 1]" and e = "UserError 3"]
    to_event_handler_function_exceptions
      [where pa = False and c = True and i = 0 and u = "\<lambda>args. URaises TypeError"
         and fresh = 1 and d = "[PInt 1]" and e = TypeError]
    to_event_handler_function_exceptions
      [where pa = False and c = False and i = 0
         and u = "\<lambda>args. UCoroutine (Raises (UserError 3))"
         and fresh = 1 and d = "[PInt 1]" and out = "Raises (UserError 3)"]
  by simp

text \<open>
  C8 as it is stated fails in three ways. A callable that is no coroutine function and
  raises \<open>StopIteration\<close> has its exception replaced by \<open>RuntimeError\<close>; a coroutine
  function wrapped with \<^verbatim>\<open>positional_args=False\<close> whose arguments do not bind raises
  its \<open>TypeError\<close> at the call, synchronously; and a callable that is no coroutine
  function but returns a coroutine has the exception of that coroutine dropped.
\<close>

theorem to_event_handler_function_exceptions_counterexample:
  "snd (dispatch
     (fst (to_event_handler_function (UserFunc 0 False (\<lambda>args. URaises StopIteration)) True 1))
     [PInt 1]) = Raises RuntimeError
   \<and> call
     (fst (to_event_handler_function (UserFunc 0 True (\<lambda>args. URaises TypeError)) False 1))
     [PSeq [PInt 1]] = ([Called 0 [PSeq [PInt 1]]], Inl TypeError)
   \<and> snd (dispatch
     (fst (to_event_handler_function
        (UserFunc 0 False (\<lambda>args. UCoroutine (Raises (UserError 3)))) True 1))
     [PInt 1]) = Returns"
  by (simp add: to_event_handler_function_def dispatch_def coroutine_def)

end
